theory Spec2Isabelle
  imports Main "HOL-Library.Word"
begin

unbundle bit_operations_syntax

section \<open>The base logger\<close>

text \<open>
  Package dbglog embeds a \<^verbatim>\<open>*log.Logger\<close> of Go's standard library and calls three of its
  methods: \<^verbatim>\<open>Printf\<close>, \<^verbatim>\<open>Print\<close> and \<^verbatim>\<open>Println\<close>. The standard library is not part of the
  package, so the base logger is modelled by what dbglog can do to it: it is built from a
  sink, a prefix and a flag word, and every print method called on it is recorded, with its
  arguments, at the end of the sink. The sink is therefore the sequence of print operations
  that have reached the base logger, in call order. How a call is rendered into bytes is
  the standard library's business and is left open.

  The values of a variadic \<^verbatim>\<open>v ...interface{}\<close> are a list over a type parameter.
\<close>

datatype 'v call =
    Printf string "'v list"
  | Print "'v list"
  | Println "'v list"

record 'v Logger =
  out :: "'v call list"
  prefix :: string
  flag :: int

definition log_New :: "'v call list \<Rightarrow> string \<Rightarrow> int \<Rightarrow> 'v Logger" where
  "log_New w p f = \<lparr>out = w, prefix = p, flag = f\<rparr>"

definition log_Printf :: "string \<Rightarrow> 'v list \<Rightarrow> 'v Logger \<Rightarrow> 'v Logger" where
  "log_Printf format v l = l\<lparr>out := out l @ [Printf format v]\<rparr>"

definition log_Print :: "'v list \<Rightarrow> 'v Logger \<Rightarrow> 'v Logger" where
  "log_Print v l = l\<lparr>out := out l @ [Print v]\<rparr>"

definition log_Println :: "'v list \<Rightarrow> 'v Logger \<Rightarrow> 'v Logger" where
  "log_Println v l = l\<lparr>out := out l @ [Println v]\<rparr>"

section \<open>DbgLogger\<close>

text \<open>
  \<^verbatim>\<open>type DbgLogger struct { *log.Logger; enabled bool; mask uint64 }\<close>.
  The field \<^verbatim>\<open>mask\<close> is named \<open>mask_u64\<close> here, \<open>mask\<close> being a constant of the word
  library. Every method has a pointer receiver and updates it in place; the model takes
  the logger and returns the logger after the call. The receiver and its embedded base
  logger are taken to be non-nil, as they are in every value that \<^verbatim>\<open>New\<close> returns.
\<close>

record 'v DbgLogger =
  Logger :: "'v Logger"
  enabled :: bool
  mask_u64 :: "64 word"

text \<open>\<^verbatim>\<open>if d.enabled { d.Printf(format, v...) }\<close>\<close>

definition Debugf :: "string \<Rightarrow> 'v list \<Rightarrow> 'v DbgLogger \<Rightarrow> 'v DbgLogger" where
  "Debugf format v d =
     (if enabled d then d\<lparr>Logger := log_Printf format v (Logger d)\<rparr> else d)"

text \<open>
  \<^verbatim>\<open>if d.enabled { }\<close> followed by \<^verbatim>\<open>d.Print(v...)\<close>: the body of the conditional is
  empty and the print statement comes after it. Both branches of the conditional are kept.
\<close>

definition Debug :: "'v list \<Rightarrow> 'v DbgLogger \<Rightarrow> 'v DbgLogger" where
  "Debug v d =
     (let d1 = (if enabled d then d else d)
      in d1\<lparr>Logger := log_Print v (Logger d1)\<rparr>)"

text \<open>\<^verbatim>\<open>if d.enabled { d.Println(v...) }\<close>\<close>

definition Debugln :: "'v list \<Rightarrow> 'v DbgLogger \<Rightarrow> 'v DbgLogger" where
  "Debugln v d =
     (if enabled d then d\<lparr>Logger := log_Println v (Logger d)\<rparr> else d)"

definition Enable :: "'v DbgLogger \<Rightarrow> 'v DbgLogger" where
  "Enable d = d\<lparr>enabled := True\<rparr>"

definition Disable :: "'v DbgLogger \<Rightarrow> 'v DbgLogger" where
  "Disable d = d\<lparr>enabled := False\<rparr>"

definition SetMask :: "64 word \<Rightarrow> 'v DbgLogger \<Rightarrow> 'v DbgLogger" where
  "SetMask m d = d\<lparr>mask_u64 := m\<rparr>"

text \<open>
  \<^verbatim>\<open>if d.enabled == true && bit != 0 && bit & d.mask == bit\<close>. In Go \<^verbatim>\<open>&\<close> binds tighter
  than \<^verbatim>\<open>==\<close>, and \<^verbatim>\<open>==\<close> tighter than \<^verbatim>\<open>&&\<close>. The three masked methods take the
  parameters \<^verbatim>\<open>(bit uint64, format string, v ...interface{})\<close>, all three of them;
  the parameter \<^verbatim>\<open>bit\<close> is written \<open>b\<close>, \<open>bit\<close> being a constant of the library.
\<close>

definition DebugfM :: "64 word \<Rightarrow> string \<Rightarrow> 'v list \<Rightarrow> 'v DbgLogger \<Rightarrow> 'v DbgLogger" where
  "DebugfM b format v d =
     (if enabled d = True \<and> b \<noteq> 0 \<and> b AND mask_u64 d = b
      then d\<lparr>Logger := log_Printf format v (Logger d)\<rparr> else d)"

definition DebugM :: "64 word \<Rightarrow> string \<Rightarrow> 'v list \<Rightarrow> 'v DbgLogger \<Rightarrow> 'v DbgLogger" where
  "DebugM b format v d =
     (if enabled d = True \<and> b \<noteq> 0 \<and> b AND mask_u64 d = b
      then d\<lparr>Logger := log_Print v (Logger d)\<rparr> else d)"

definition DebuglnM :: "64 word \<Rightarrow> string \<Rightarrow> 'v list \<Rightarrow> 'v DbgLogger \<Rightarrow> 'v DbgLogger" where
  "DebuglnM b format v d =
     (if enabled d = True \<and> b \<noteq> 0 \<and> b AND mask_u64 d = b
      then d\<lparr>Logger := log_Println v (Logger d)\<rparr> else d)"

text \<open>
  \<^verbatim>\<open>d := &DbgLogger{}\<close> gives every field its zero value, then
  \<^verbatim>\<open>d.Logger = log.New(out, prefix, flag)\<close>.
\<close>

definition New :: "'v call list \<Rightarrow> string \<Rightarrow> int \<Rightarrow> 'v DbgLogger" where
  "New w p f =
     (let d = \<lparr>Logger = \<lparr>out = [], prefix = [], flag = 0\<rparr>, enabled = False, mask_u64 = 0\<rparr>
      in d\<lparr>Logger := log_New w p f\<rparr>)"

section \<open>Observing a call\<close>

text \<open>
  The print operations that reached the base logger between a state \<open>d\<close> and a later
  state \<open>d'\<close>: what the sink of \<open>d'\<close> holds beyond the sink of \<open>d\<close>.
\<close>

definition emitted :: "'v DbgLogger \<Rightarrow> 'v DbgLogger \<Rightarrow> 'v call list" where
  "emitted d d' = drop (length (out (Logger d))) (out (Logger d'))"

text \<open>A sequence of calls to \<^verbatim>\<open>Enable\<close> and \<^verbatim>\<open>Disable\<close>, run from left to right.\<close>

datatype toggle = CallEnable | CallDisable

fun toggle_call :: "toggle \<Rightarrow> 'v DbgLogger \<Rightarrow> 'v DbgLogger" where
  "toggle_call CallEnable d = Enable d"
| "toggle_call CallDisable d = Disable d"

fun toggle_calls :: "toggle list \<Rightarrow> 'v DbgLogger \<Rightarrow> 'v DbgLogger" where
  "toggle_calls [] d = d"
| "toggle_calls (c # cs) d = toggle_calls cs (toggle_call c d)"

section \<open>Facts about the base logger and the observation\<close>

lemma emitted_same: "emitted d d = []"
  by (simp add: emitted_def)

lemma emitted_Printf:
  "emitted d (d\<lparr>Logger := log_Printf format v (Logger d)\<rparr>) = [Printf format v]"
  by (simp add: emitted_def log_Printf_def)

lemma emitted_Print:
  "emitted d (d\<lparr>Logger := log_Print v (Logger d)\<rparr>) = [Print v]"
  by (simp add: emitted_def log_Print_def)

lemma emitted_Println:
  "emitted d (d\<lparr>Logger := log_Println v (Logger d)\<rparr>) = [Println v]"
  by (simp add: emitted_def log_Println_def)

lemma toggle_calls_snoc:
  "toggle_calls (cs @ [c]) d = toggle_call c (toggle_calls cs d)"
  by (induction cs arbitrary: d) simp_all

lemma enabled_toggle_call: "enabled (toggle_call c d) = (c = CallEnable)"
  by (cases c) (simp_all add: Enable_def Disable_def)

lemma and_subset_trans:
  fixes b m m' :: "64 word"
  assumes "b AND m = b" and "m AND m' = m"
  shows "b AND m' = b"
proof -
  have "b AND m' = (b AND m) AND m'" using assms(1) by simp
  also have "\<dots> = b AND (m AND m')" by (simp add: and.assoc)
  also have "\<dots> = b" using assms by simp
  finally show ?thesis .
qed

section \<open>The unmasked debug methods\<close>

text \<open>
  C2. In every state of the logger, whatever the mask, \<^verbatim>\<open>Debugf\<close> invokes the base
  logger's \<^verbatim>\<open>Printf\<close> (once, with its own arguments) if and only if \<open>enabled\<close> is true,
  and \<^verbatim>\<open>Debugln\<close> invokes \<^verbatim>\<open>Println\<close> if and only if \<open>enabled\<close> is true. When
  \<open>enabled\<close> is false both calls leave the logger, sink included, as it was.
\<close>

theorem Debugf_Debugln_iff_enabled:
  "(emitted d (Debugf format v d) = [Printf format v]) = enabled d \<and>
   (emitted d (Debugln v d) = [Println v]) = enabled d \<and>
   (\<not> enabled d \<longrightarrow> Debugf format v d = d \<and> Debugln v d = d)"
  by (simp add: Debugf_def Debugln_def emitted_Printf emitted_Println emitted_same)

theorem Debugf_Debugln_iff_enabled_witness:
  "\<not> enabled (New [] ''myapp '' 0 :: string DbgLogger) \<and>
   Debugf ''x=%d'' [''5''] (New [] ''myapp '' 0) = New [] ''myapp '' 0 \<and>
   Debugln [''5''] (New [] ''myapp '' 0) = New [] ''myapp '' 0 \<and>
   emitted (New [] ''myapp '' 0) (Debugf ''x=%d'' [''5''] (New [] ''myapp '' 0))
     \<noteq> [Printf ''x=%d'' [''5'']]"
proof -
  have h: "\<not> enabled (New [] ''myapp '' 0 :: string DbgLogger)"
    by (simp add: New_def)
  from Debugf_Debugln_iff_enabled [of "New [] ''myapp '' 0" "''x=%d''" "[''5'']"] h
  show ?thesis by (simp add: emitted_same)
qed

text \<open>
  C3, evaluated on the code. The claim is that \<^verbatim>\<open>Debug\<close> prints only when \<open>enabled\<close> is
  true, which is also what the comment above the method says. On a logger fresh from
  \<^verbatim>\<open>New\<close>, where \<open>enabled\<close> is false, \<^verbatim>\<open>Debug("y")\<close> still reaches the base logger's
  \<^verbatim>\<open>Print\<close>.
\<close>

theorem Debug_prints_when_disabled:
  "enabled (New [] ''myapp '' 0 :: string DbgLogger) = False \<and>
   emitted (New [] ''myapp '' 0) (Debug [''y''] (New [] ''myapp '' 0)) = [Print [''y'']] \<and>
   Debug [''y''] (New [] ''myapp '' 0) \<noteq> New [] ''myapp '' 0"
  by (simp add: New_def Debug_def Let_def log_New_def log_Print_def emitted_def)

text \<open>
  C4. \<^verbatim>\<open>Debug\<close> emits unconditionally: in every state of the logger, \<open>enabled\<close> false
  included, a call to \<^verbatim>\<open>Debug\<close> invokes the base logger's \<^verbatim>\<open>Print\<close> exactly once, with
  the values it was given, and changes nothing else.
\<close>

theorem Debug_unconditional:
  "emitted d (Debug v d) = [Print v] \<and>
   emitted (Disable d) (Debug v (Disable d)) = [Print v] \<and>
   Debug v d = d\<lparr>Logger := log_Print v (Logger d)\<rparr>"
  by (simp add: Debug_def Let_def emitted_Print)

section \<open>The constructor\<close>

text \<open>
  C5. For every sink, prefix and flag, \<^verbatim>\<open>New\<close> returns a logger with \<open>enabled\<close> false
  and mask 0, over the base logger built from those three arguments; a \<^verbatim>\<open>Debugf\<close> on
  that logger writes nothing.
\<close>

theorem New_initial_state:
  "enabled (New w p f) = False \<and>
   mask_u64 (New w p f) = 0 \<and>
   Logger (New w p f) = log_New w p f \<and>
   Debugf format v (New w p f) = New w p f \<and>
   emitted (New w p f) (Debugf format v (New w p f)) = []"
  by (simp add: New_def Debugf_def emitted_same)

section \<open>The masked debug methods\<close>

text \<open>
  C1. In every state of the logger and for every argument \<open>b\<close>, each masked method
  invokes its print operation of the base logger (once, with the method's arguments) if
  and only if \<open>enabled\<close> is true, \<open>b\<close> is not zero and \<open>b AND mask = b\<close>; and it
  invokes nothing if and only if that condition fails.
\<close>

theorem masked_emits_iff_gate:
  "(emitted d (DebugfM b format v d) = [Printf format v])
     = (enabled d \<and> b \<noteq> 0 \<and> b AND mask_u64 d = b) \<and>
   (emitted d (DebugM b format v d) = [Print v])
     = (enabled d \<and> b \<noteq> 0 \<and> b AND mask_u64 d = b) \<and>
   (emitted d (DebuglnM b format v d) = [Println v])
     = (enabled d \<and> b \<noteq> 0 \<and> b AND mask_u64 d = b) \<and>
   (emitted d (DebugfM b format v d) = [])
     = (\<not> (enabled d \<and> b \<noteq> 0 \<and> b AND mask_u64 d = b)) \<and>
   (emitted d (DebugM b format v d) = [])
     = (\<not> (enabled d \<and> b \<noteq> 0 \<and> b AND mask_u64 d = b)) \<and>
   (emitted d (DebuglnM b format v d) = [])
     = (\<not> (enabled d \<and> b \<noteq> 0 \<and> b AND mask_u64 d = b))"
proof -
  let ?gate = "enabled d \<and> b \<noteq> 0 \<and> b AND mask_u64 d = b"
  have f: "emitted d (DebugfM b format v d) = (if ?gate then [Printf format v] else [])"
    by (simp add: DebugfM_def emitted_Printf emitted_same)
  have p: "emitted d (DebugM b format v d) = (if ?gate then [Print v] else [])"
    by (simp add: DebugM_def emitted_Print emitted_same)
  have l: "emitted d (DebuglnM b format v d) = (if ?gate then [Println v] else [])"
    by (simp add: DebuglnM_def emitted_Println emitted_same)
  show ?thesis
    unfolding f p l by simp
qed

text \<open>
  C6. In every state of the logger, whatever \<open>enabled\<close> and the mask are (a mask of all
  ones included), a masked method called with \<open>b = 0\<close> invokes no print operation and
  leaves the logger as it was.
\<close>

theorem masked_zero_bit_never_emits:
  "DebugfM 0 format v d = d \<and> DebugM 0 format v d = d \<and> DebuglnM 0 format v d = d \<and>
   emitted d (DebugfM 0 format v d) = [] \<and>
   emitted d (DebugM 0 format v d) = [] \<and>
   emitted d (DebuglnM 0 format v d) = [] \<and>
   emitted (SetMask (- 1) (Enable d)) (DebugfM 0 format v (SetMask (- 1) (Enable d))) = [] \<and>
   emitted (SetMask (- 1) (Enable d)) (DebugM 0 format v (SetMask (- 1) (Enable d))) = [] \<and>
   emitted (SetMask (- 1) (Enable d)) (DebuglnM 0 format v (SetMask (- 1) (Enable d))) = []"
  by (simp add: DebugfM_def DebugM_def DebuglnM_def emitted_same)

text \<open>
  C9. The \<^verbatim>\<open>format\<close> parameter of \<^verbatim>\<open>DebugM\<close> and \<^verbatim>\<open>DebuglnM\<close> has no effect: two calls
  that differ only in it end in the same logger, sink included.
\<close>

theorem DebugM_DebuglnM_format_ignored:
  "DebugM b format v d = DebugM b format' v d \<and>
   DebuglnM b format v d = DebuglnM b format' v d \<and>
   emitted d (DebugM b format v d) = emitted d (DebugM b format' v d) \<and>
   emitted d (DebuglnM b format v d) = emitted d (DebuglnM b format' v d)"
  by (simp add: DebugM_def DebuglnM_def)

text \<open>
  C10. The masked gate is monotone in the mask: if every bit of \<open>m\<close> is also set in
  \<open>m'\<close> (\<open>m AND m' = m\<close>) and \<open>b\<close> is not zero, then a masked call that emits once the
  mask has been set to \<open>m\<close> also emits once it has been set to \<open>m'\<close>.
\<close>

theorem masked_gate_monotone:
  assumes "m AND m' = m" and "b \<noteq> 0"
  shows
  "(emitted (SetMask m d) (DebugfM b format v (SetMask m d)) = [Printf format v] \<longrightarrow>
    emitted (SetMask m' d) (DebugfM b format v (SetMask m' d)) = [Printf format v]) \<and>
   (emitted (SetMask m d) (DebugM b format v (SetMask m d)) = [Print v] \<longrightarrow>
    emitted (SetMask m' d) (DebugM b format v (SetMask m' d)) = [Print v]) \<and>
   (emitted (SetMask m d) (DebuglnM b format v (SetMask m d)) = [Println v] \<longrightarrow>
    emitted (SetMask m' d) (DebuglnM b format v (SetMask m' d)) = [Println v])"
proof -
  have sub: "b AND m = b \<Longrightarrow> b AND m' = b"
    using and_subset_trans [OF _ assms(1)] by simp
  have f: "\<And>k. emitted (SetMask k d) (DebugfM b format v (SetMask k d)) =
      (if enabled d \<and> b AND k = b then [Printf format v] else [])"
    using assms(2) by (simp add: DebugfM_def SetMask_def emitted_def log_Printf_def)
  have p: "\<And>k. emitted (SetMask k d) (DebugM b format v (SetMask k d)) =
      (if enabled d \<and> b AND k = b then [Print v] else [])"
    using assms(2) by (simp add: DebugM_def SetMask_def emitted_def log_Print_def)
  have l: "\<And>k. emitted (SetMask k d) (DebuglnM b format v (SetMask k d)) =
      (if enabled d \<and> b AND k = b then [Println v] else [])"
    using assms(2) by (simp add: DebuglnM_def SetMask_def emitted_def log_Println_def)
  show ?thesis
    unfolding f p l using sub by simp
qed

theorem masked_gate_monotone_witness:
  "(1 :: 64 word) AND 3 = 1 \<and> (1 :: 64 word) \<noteq> 0 \<and>
   emitted (SetMask 1 (Enable (New [] ''myapp '' 0)))
     (DebugfM 1 ''a'' [''x''] (SetMask 1 (Enable (New [] ''myapp '' 0))))
     = [Printf ''a'' [''x'']] \<and>
   emitted (SetMask 3 (Enable (New [] ''myapp '' 0)))
     (DebugfM 1 ''a'' [''x''] (SetMask 3 (Enable (New [] ''myapp '' 0))))
     = [Printf ''a'' [''x'']] \<and>
   emitted (SetMask 1 (Enable (New [] ''myapp '' 0)))
     (DebugM 1 ''a'' [''x''] (SetMask 1 (Enable (New [] ''myapp '' 0))))
     = [Print [''x'']] \<and>
   emitted (SetMask 3 (Enable (New [] ''myapp '' 0)))
     (DebugM 1 ''a'' [''x''] (SetMask 3 (Enable (New [] ''myapp '' 0))))
     = [Print [''x'']] \<and>
   emitted (SetMask 1 (Enable (New [] ''myapp '' 0)))
     (DebuglnM 1 ''a'' [''x''] (SetMask 1 (Enable (New [] ''myapp '' 0))))
     = [Println [''x'']] \<and>
   emitted (SetMask 3 (Enable (New [] ''myapp '' 0)))
     (DebuglnM 1 ''a'' [''x''] (SetMask 3 (Enable (New [] ''myapp '' 0))))
     = [Println [''x'']]"
proof -
  let ?d = "Enable (New [] ''myapp '' 0) :: string DbgLogger"
  have h1: "(1 :: 64 word) AND 3 = 1" by simp
  have h2: "(1 :: 64 word) \<noteq> 0" by simp
  have f: "emitted (SetMask 1 ?d) (DebugfM 1 ''a'' [''x''] (SetMask 1 ?d))
      = [Printf ''a'' [''x'']]"
    by (simp add: SetMask_def Enable_def New_def DebugfM_def log_New_def log_Printf_def
        emitted_def)
  have p: "emitted (SetMask 1 ?d) (DebugM 1 ''a'' [''x''] (SetMask 1 ?d)) = [Print [''x'']]"
    by (simp add: SetMask_def Enable_def New_def DebugM_def log_New_def log_Print_def
        emitted_def)
  have l: "emitted (SetMask 1 ?d) (DebuglnM 1 ''a'' [''x''] (SetMask 1 ?d))
      = [Println [''x'']]"
    by (simp add: SetMask_def Enable_def New_def DebuglnM_def log_New_def log_Println_def
        emitted_def)
  from masked_gate_monotone [OF h1 h2, of ?d "''a''" "[''x'']"] f p l
  show ?thesis using h1 h2 by simp
qed

section \<open>Enable, Disable and SetMask\<close>

text \<open>
  C7. \<^verbatim>\<open>Enable\<close> and \<^verbatim>\<open>Disable\<close> are idempotent. After any finite sequence of
  \<^verbatim>\<open>Enable\<close>/\<^verbatim>\<open>Disable\<close> calls ending in the call \<open>c\<close>, \<open>enabled\<close> is true exactly when
  \<open>c\<close> is \<^verbatim>\<open>Enable\<close>, whatever came before, and the next \<^verbatim>\<open>Debugf\<close> or \<^verbatim>\<open>Debugln\<close>
  emits exactly when \<open>c\<close> is \<^verbatim>\<open>Enable\<close>.
\<close>

theorem Enable_Disable_last_call_wins:
  "Enable (Enable d) = Enable d \<and>
   Disable (Disable d) = Disable d \<and>
   enabled (toggle_calls (cs @ [c]) d) = (c = CallEnable) \<and>
   (emitted (toggle_calls (cs @ [c]) d) (Debugf format v (toggle_calls (cs @ [c]) d))
      = [Printf format v]) = (c = CallEnable) \<and>
   (emitted (toggle_calls (cs @ [c]) d) (Debugln v (toggle_calls (cs @ [c]) d))
      = [Println v]) = (c = CallEnable) \<and>
   (emitted (toggle_calls (cs @ [c]) d) (Debugf format v (toggle_calls (cs @ [c]) d))
      = []) = (c = CallDisable) \<and>
   (emitted (toggle_calls (cs @ [c]) d) (Debugln v (toggle_calls (cs @ [c]) d))
      = []) = (c = CallDisable)"
proof -
  let ?d = "toggle_calls (cs @ [c]) d"
  have en: "enabled ?d = (c = CallEnable)"
    by (simp add: toggle_calls_snoc enabled_toggle_call)
  have f: "emitted ?d (Debugf format v ?d) = (if c = CallEnable then [Printf format v] else [])"
    unfolding Debugf_def en by (simp add: emitted_Printf emitted_same)
  have l: "emitted ?d (Debugln v ?d) = (if c = CallEnable then [Println v] else [])"
    unfolding Debugln_def en by (simp add: emitted_Println emitted_same)
  have dis: "(c \<noteq> CallEnable) = (c = CallDisable)"
    by (cases c) simp_all
  have idem: "Enable (Enable d) = Enable d \<and> Disable (Disable d) = Disable d"
    by (simp add: Enable_def Disable_def)
  show ?thesis
    unfolding f l using en idem dis by simp
qed

text \<open>
  C8. Each operation changes its own field only. \<^verbatim>\<open>Enable\<close> and \<^verbatim>\<open>Disable\<close> leave the
  mask (and the base logger) as they were; \<^verbatim>\<open>SetMask\<close> sets the mask to exactly the value
  given and leaves \<open>enabled\<close> (and the base logger) as they were; each of the six debug
  methods leaves both \<open>enabled\<close> and the mask as they were.
\<close>

theorem operations_frame:
  "mask_u64 (Enable d) = mask_u64 d \<and> Logger (Enable d) = Logger d \<and>
   mask_u64 (Disable d) = mask_u64 d \<and> Logger (Disable d) = Logger d \<and>
   mask_u64 (SetMask m d) = m \<and> enabled (SetMask m d) = enabled d \<and>
   Logger (SetMask m d) = Logger d \<and>
   enabled (Debugf format v d) = enabled d \<and> mask_u64 (Debugf format v d) = mask_u64 d \<and>
   enabled (Debug v d) = enabled d \<and> mask_u64 (Debug v d) = mask_u64 d \<and>
   enabled (Debugln v d) = enabled d \<and> mask_u64 (Debugln v d) = mask_u64 d \<and>
   enabled (DebugfM b format v d) = enabled d \<and>
   mask_u64 (DebugfM b format v d) = mask_u64 d \<and>
   enabled (DebugM b format v d) = enabled d \<and>
   mask_u64 (DebugM b format v d) = mask_u64 d \<and>
   enabled (DebuglnM b format v d) = enabled d \<and>
   mask_u64 (DebuglnM b format v d) = mask_u64 d"
  by (simp add: Enable_def Disable_def SetMask_def Debugf_def Debug_def Debugln_def
      DebugfM_def DebugM_def DebuglnM_def Let_def)

end
